theory Spec2Isabelle
  imports Complex_Main "HOL-Library.Sublist"
begin

section \<open>JavaScript strings\<close>

text \<open>
  A JavaScript string is a sequence of UTF-16 code units. The model covers the code units
  U+0000 to U+00FF (ASCII and Latin-1), one \<^typ>\<open>char\<close> each. On this range the library
  functions below are the ones of the standard: \<open>trim\<close> strips the white space and line
  terminators TAB, LF, VT, FF, CR, SP and NBSP, and \<open>toLowerCase\<close> maps A-Z and the
  Latin-1 capitals (U+00C0 to U+00DE except the multiplication sign U+00D7) 32 places up
  and leaves every other unit alone.
\<close>

definition isWhiteSpace :: "char \<Rightarrow> bool" where
  "isWhiteSpace c = (of_char c \<in> {9, 10, 11, 12, 13, 32, 160 :: nat})"

definition trim :: "string \<Rightarrow> string" where
  "trim s = rev (dropWhile isWhiteSpace (rev (dropWhile isWhiteSpace s)))"

text \<open>\<open>trim\<close> strips the start, then the end; \<open>trimEnd\<close> names the second half.\<close>

definition trimEnd :: "string \<Rightarrow> string" where
  "trimEnd s = rev (dropWhile isWhiteSpace (rev s))"

definition lowerChar :: "char \<Rightarrow> char" where
  "lowerChar c =
     (let n = of_char c :: nat
      in if (65 \<le> n \<and> n \<le> 90) \<or> (192 \<le> n \<and> n \<le> 222 \<and> n \<noteq> 215)
         then char_of (n + 32) else c)"

definition toLowerCase :: "string \<Rightarrow> string" where
  "toLowerCase s = map lowerChar s"

text \<open>
  \<open>s.includes(t)\<close> (the name \<open>includes\<close> is reserved here): \<open>t\<close> occurs in
  \<open>s\<close> as a contiguous run.
\<close>

fun includesStr :: "string \<Rightarrow> string \<Rightarrow> bool" where
  "includesStr [] t = (t = [])"
| "includesStr (c # cs) t = (prefix t (c # cs) \<or> includesStr cs t)"

text \<open>
  \<open>s.split(sep)\<close> for a one-character separator: the pieces between the separators,
  at least one piece, empty pieces kept. \<open>parts.join(sep)\<close> puts them together again.
\<close>

fun split :: "char \<Rightarrow> string \<Rightarrow> string list" where
  "split sep [] = [[]]"
| "split sep (c # cs) =
     (if c = sep then [] # split sep cs
      else (case split sep cs of p # ps \<Rightarrow> (c # p) # ps | [] \<Rightarrow> [[c]]))"

fun join :: "char \<Rightarrow> string list \<Rightarrow> string" where
  "join sep [] = []"
| "join sep [p] = p"
| "join sep (p # q # ps) = p @ sep # join sep (q # ps)"

text \<open>\<open>s.substring(0, n)\<close> is \<^term>\<open>take n s\<close>.\<close>

definition substring0 :: "nat \<Rightarrow> string \<Rightarrow> string" where
  "substring0 n s = take n s"

section \<open>The line-oriented parser (\<open>parsePlainTextOutput\<close>, llm-models.ts)\<close>

text \<open>
  \<open>LLMOutput\<close> as the parser builds it: an object of five string properties. The
  TypeScript type restricts \<open>department\<close> and \<open>severity\<close> to their labels; the object
  is built as \<open>any\<close>, so here they are strings and the restriction is a property to prove.
\<close>

record LLMOutput =
  department :: string
  location :: string
  severity :: string
  description :: string
  summary :: string

text \<open>The labels of the TypeScript type \<open>LLMOutput\<close>.\<close>

definition departmentLabels :: "string list" where
  "departmentLabels = [''roads_and_traffic'', ''water_supply'', ''solid_waste_management'']"

definition severityLabels :: "string list" where
  "severityLabels = [''low'', ''medium'', ''high'', ''critical'']"

definition initialOutput :: LLMOutput where
  "initialOutput =
     \<lparr>department = ''roads_and_traffic'', location = '''', severity = ''medium'',
      description = '''', summary = ''''\<rparr>"

text \<open>\<open>text.split('\n').map(line => line.trim()).filter(line => line)\<close>\<close>

definition textLines :: "string \<Rightarrow> string list" where
  "textLines text = filter (\<lambda>line. line \<noteq> []) (map trim (split (CHR 0x0A) text))"

text \<open>
  The body of the \<open>for (const line of lines)\<close> loop, on the object built so far.
  \<open>const [key, ...valueParts] = line.split(':')\<close>: a split has at least one piece
  (\<open>split_not_Nil\<close> below), so the key is always there.
\<close>

definition parseLine :: "LLMOutput \<Rightarrow> string \<Rightarrow> LLMOutput" where
  "parseLine output line =
     (let parts = split (CHR '':'') line;
          key = hd parts;
          valueParts = tl parts;
          value = trim (join (CHR '':'') valueParts)
      in if value = [] then output
         else
           let lowerKey = trim (toLowerCase key)
           in if includesStr lowerKey ''department'' then
                (let dept = toLowerCase value
                 in if includesStr dept ''road'' \<or> includesStr dept ''traffic''
                    then output\<lparr>department := ''roads_and_traffic''\<rparr>
                    else if includesStr dept ''water''
                    then output\<lparr>department := ''water_supply''\<rparr>
                    else if includesStr dept ''waste'' \<or> includesStr dept ''garbage''
                    then output\<lparr>department := ''solid_waste_management''\<rparr>
                    else output)
              else if includesStr lowerKey ''severity'' then
                (let sev = toLowerCase value
                 in if sev \<in> set [''low'', ''medium'', ''high'', ''critical'']
                    then output\<lparr>severity := sev\<rparr>
                    else output)
              else if includesStr lowerKey ''location'' then output\<lparr>location := value\<rparr>
              else if includesStr lowerKey ''description'' then output\<lparr>description := value\<rparr>
              else if includesStr lowerKey ''summary'' then output\<lparr>summary := value\<rparr>
              else output)"

text \<open>
  The two statements after the loop (\<open>// Ensure we have both fields\<close>): an empty
  description takes the summary or a placeholder, then an empty summary takes the first
  80 characters of the description or a placeholder.
\<close>

definition ensureFields :: "LLMOutput \<Rightarrow> LLMOutput" where
  "ensureFields output =
     (let output1 =
            (if description output = []
             then output\<lparr>description :=
                    (if summary output \<noteq> [] then summary output
                     else ''No description provided'')\<rparr>
             else output)
      in if summary output1 = []
         then output1\<lparr>summary :=
                (if substring0 80 (description output1) \<noteq> []
                 then substring0 80 (description output1)
                 else ''No summary provided'')\<rparr>
         else output1)"

definition parsePlainTextOutput :: "string \<Rightarrow> LLMOutput" where
  "parsePlainTextOutput text = ensureFields (foldl parseLine initialOutput (textLines text))"

section \<open>JavaScript values and \<open>JSON.parse\<close>\<close>

text \<open>
  The values that reach the program: what \<open>JSON.parse\<close> and \<open>response.json()\<close> build,
  and \<open>undefined\<close> for a property that is not there. A number carries the exact decimal
  value of its literal; the runtime rounds it to the nearest double (ties to even), and
  the only thing the program asks of a number is whether that double is zero, which it
  is exactly when the absolute value is at most 2 to the power -1075 (half of the
  smallest positive double). An object is the list of its own properties in insertion
  order.
\<close>

datatype jsval =
    JUndefined
  | JNull
  | JBool bool
  | JNum rat
  | JStr string
  | JArr "jsval list"
  | JObj "(string \<times> jsval) list"

text \<open>\<open>ToBoolean\<close>: what \<open>!v\<close>, \<open>v || w\<close> and \<open>v && w\<close> test.\<close>

fun truthy :: "jsval \<Rightarrow> bool" where
  "truthy JUndefined = False"
| "truthy JNull = False"
| "truthy (JBool b) = b"
| "truthy (JNum x) = (\<bar>x\<bar> > 1 / 2 ^ 1075)"
| "truthy (JStr s) = (s \<noteq> [])"
| "truthy (JArr xs) = True"
| "truthy (JObj ms) = True"

text \<open>
  \<open>v.k\<close> on a value other than \<open>null\<close> and \<open>undefined\<close>, for the property names the
  program reads (none of them is a property of the String, Number, Boolean, Array or
  Object prototypes): an own property of an object, \<open>undefined\<close> otherwise.
\<close>

fun get :: "jsval \<Rightarrow> string \<Rightarrow> jsval" where
  "get (JObj ms) k = (case map_of ms k of Some v \<Rightarrow> v | None \<Rightarrow> JUndefined)"
| "get v k = JUndefined"

text \<open>\<open>a || b\<close>\<close>

definition orElse :: "jsval \<Rightarrow> jsval \<Rightarrow> jsval" where
  "orElse a b = (if truthy a then a else b)"

text \<open>
  Defining a property: a key that is already there keeps its place and takes the new
  value (so the last of two equal keys of a JSON text wins), a new key goes to the end.
\<close>

fun setProperty :: "string \<Rightarrow> jsval \<Rightarrow> (string \<times> jsval) list \<Rightarrow> (string \<times> jsval) list" where
  "setProperty k v [] = [(k, v)]"
| "setProperty k v (m # ms) = (if fst m = k then (k, v) # ms else m # setProperty k v ms)"

subsection \<open>Tokens\<close>

datatype token =
    LBrace | RBrace | LBracket | RBracket | Colon | Comma
  | TString string | TNumber rat | TTrue | TFalse | TNull

definition isDigit :: "char \<Rightarrow> bool" where
  "isDigit c = (48 \<le> (of_char c :: nat) \<and> (of_char c :: nat) \<le> 57)"

definition digitsValue :: "string \<Rightarrow> nat" where
  "digitsValue ds = foldl (\<lambda>n d. 10 * n + (of_char d - 48)) 0 ds"

definition hexValue :: "char \<Rightarrow> nat option" where
  "hexValue c =
     (let n = of_char c :: nat
      in if 48 \<le> n \<and> n \<le> 57 then Some (n - 48)
         else if 65 \<le> n \<and> n \<le> 70 then Some (n - 55)
         else if 97 \<le> n \<and> n \<le> 102 then Some (n - 87)
         else None)"

definition hex4 :: "char \<Rightarrow> char \<Rightarrow> char \<Rightarrow> char \<Rightarrow> nat option" where
  "hex4 a b c d =
     (case (hexValue a, hexValue b, hexValue c, hexValue d) of
        (Some w, Some x, Some y, Some z) \<Rightarrow> Some (((w * 16 + x) * 16 + y) * 16 + z)
      | _ \<Rightarrow> None)"

definition escapeChar :: "char \<Rightarrow> char option" where
  "escapeChar e =
     (if e = CHR 0x22 then Some (CHR 0x22)
      else if e = CHR 0x5C then Some (CHR 0x5C)
      else if e = CHR ''/'' then Some (CHR ''/'')
      else if e = CHR ''b'' then Some (CHR 0x08)
      else if e = CHR ''f'' then Some (CHR 0x0C)
      else if e = CHR ''n'' then Some (CHR 0x0A)
      else if e = CHR ''r'' then Some (CHR 0x0D)
      else if e = CHR ''t'' then Some (CHR 0x09)
      else None)"

text \<open>
  What reading JSON gives: a SyntaxError, a result, or no answer of this model. An
  escape \<open>\uXXXX\<close> above U+00FF is valid JSON and names a code unit that a string of
  this model cannot hold; \<open>JSON.parse\<close> decodes it, and the model stops there with
  \<open>OutsideModel\<close> and says nothing about what the program does with that text.
\<close>

datatype 'a parsed = SyntaxError | OutsideModel | Parsed 'a

text \<open>
  The characters of a string literal after its opening quote: the decoded string and
  what follows the closing quote. A control character or a bad escape is an error.
\<close>

fun lexString :: "string \<Rightarrow> string \<Rightarrow> (string \<times> string) parsed" where
  "lexString acc [] = SyntaxError"
| "lexString acc (c # cs) =
     (if c = CHR 0x22 then Parsed (rev acc, cs)
      else if c = CHR 0x5C then
        (case cs of
           [] \<Rightarrow> SyntaxError
         | e # cs1 \<Rightarrow>
             if e = CHR ''u'' then
               (case cs1 of
                  h1 # h2 # h3 # h4 # cs2 \<Rightarrow>
                    (case hex4 h1 h2 h3 h4 of
                       Some n \<Rightarrow>
                         if n < 256 then lexString (char_of n # acc) cs2 else OutsideModel
                     | None \<Rightarrow> SyntaxError)
                | _ \<Rightarrow> SyntaxError)
             else
               (case escapeChar e of
                  Some x \<Rightarrow> lexString (x # acc) cs1
                | None \<Rightarrow> SyntaxError))
      else if (of_char c :: nat) < 32 then SyntaxError
      else lexString (c # acc) cs)"

text \<open>
  A number literal at the head of the input: \<open>-? (0 | [1-9][0-9]*) (. [0-9]+)?
  ([eE] [+-]? [0-9]+)?\<close>, its value and the rest of the input.
\<close>

definition lexInt :: "string \<Rightarrow> (bool \<times> string \<times> string) option" where
  "lexInt s =
     (let negative = (s \<noteq> [] \<and> hd s = CHR ''-'');
          s1 = (if negative then tl s else s);
          intDigits = takeWhile isDigit s1
      in if intDigits = [] \<or> (hd intDigits = CHR ''0'' \<and> length intDigits > 1) then None
         else Some (negative, intDigits, dropWhile isDigit s1))"

definition lexFrac :: "string \<Rightarrow> (string \<times> string) option" where
  "lexFrac s =
     (if s \<noteq> [] \<and> hd s = CHR ''.''
      then (if takeWhile isDigit (tl s) = [] then None
            else Some (takeWhile isDigit (tl s), dropWhile isDigit (tl s)))
      else Some ([], s))"

definition lexExp :: "string \<Rightarrow> (int \<times> string) option" where
  "lexExp s =
     (if s \<noteq> [] \<and> (hd s = CHR ''e'' \<or> hd s = CHR ''E'')
      then
        (let s1 = tl s;
             signed = (s1 \<noteq> [] \<and> (hd s1 = CHR ''-'' \<or> hd s1 = CHR ''+''));
             s2 = (if signed then tl s1 else s1);
             expDigits = takeWhile isDigit s2
         in if expDigits = [] then None
            else Some (if signed \<and> hd s1 = CHR ''-'' then - int (digitsValue expDigits)
                       else int (digitsValue expDigits),
                       dropWhile isDigit s2))
      else Some (0, s))"

definition lexNumber :: "string \<Rightarrow> (rat \<times> string) option" where
  "lexNumber s =
     (case lexInt s of
        None \<Rightarrow> None
      | Some (negative, intDigits, s2) \<Rightarrow>
          (case lexFrac s2 of
             None \<Rightarrow> None
           | Some (fracDigits, s3) \<Rightarrow>
               (case lexExp s3 of
                  None \<Rightarrow> None
                | Some (e, s4) \<Rightarrow>
                    let mantissa = int (digitsValue (intDigits @ fracDigits));
                        exponent = e - int (length fracDigits);
                        magnitude = (if exponent \<ge> 0
                                     then of_int (mantissa * 10 ^ nat exponent)
                                     else of_int mantissa / of_int (10 ^ nat (- exponent)))
                    in Some (if negative then - magnitude else magnitude, s4))))"

lemma lexString_length: "lexString acc cs = Parsed (s, rest) \<Longrightarrow> length rest < length cs"
proof (induction acc cs rule: lexString.induct)
  case (1 acc)
  then show ?case by simp
next
  case (2 acc c cs)
  show ?case
  proof (cases "c = CHR 0x22")
    case True
    with 2(4) show ?thesis by simp
  next
    case nq: False
    show ?thesis
    proof (cases "c = CHR 0x5C")
      case bs: True
      show ?thesis
      proof (cases cs)
        case Nil
        with 2(4) nq bs show ?thesis by simp
      next
        case (Cons e cs1)
        show ?thesis
        proof (cases "e = CHR ''u''")
          case True
          from 2(4) nq bs Cons True obtain h1 h2 h3 h4 cs2 n where
            c1: "cs1 = h1 # h2 # h3 # h4 # cs2" and h: "hex4 h1 h2 h3 h4 = Some n" and n: "n < 256"
            and r: "lexString (char_of n # acc) cs2 = Parsed (s, rest)"
            by (simp split: list.splits option.splits if_splits)
          from 2(1)[OF nq bs Cons True c1 refl refl refl h n r] 
          have "length rest < length cs2" .
          with c1 Cons show ?thesis by simp
        next
          case False
          from 2(4) nq bs Cons False obtain x where e: "escapeChar e = Some x"
            and r: "lexString (x # acc) cs1 = Parsed (s, rest)"
            by (simp split: option.splits)
          from 2(2)[OF nq bs Cons False e r] have "length rest < length cs1" .
          with Cons show ?thesis by simp
        qed
      qed
    next
      case nb: False
      from 2(4) nq nb have c: "\<not> (of_char c :: nat) < 32" and r: "lexString (c # acc) cs = Parsed (s, rest)"
        by (simp_all split: if_splits)
      from 2(3)[OF nq nb c r] show ?thesis by simp
    qed
  qed
qed

lemma dropWhile_shorter: "takeWhile P xs \<noteq> [] \<Longrightarrow> length (dropWhile P xs) < length xs"
  by (cases xs) (auto simp: le_imp_less_Suc length_dropWhile_le split: if_splits)

lemma lexInt_length: "lexInt s = Some (neg, ds, rest) \<Longrightarrow> length rest < length s"
  unfolding lexInt_def Let_def
  by (cases s) (auto split: if_splits dest!: dropWhile_shorter intro: less_SucI simp: le_imp_less_Suc length_dropWhile_le)

lemma lexFrac_length: "lexFrac s = Some (ds, rest) \<Longrightarrow> length rest \<le> length s"
  unfolding lexFrac_def
  by (cases s) (auto split: if_splits simp: le_SucI length_dropWhile_le)

lemma lexExp_length: "lexExp s = Some (e, rest) \<Longrightarrow> length rest \<le> length s"
  unfolding lexExp_def Let_def
  by (cases s; cases "tl s") (auto split: if_splits simp: le_SucI length_dropWhile_le)

lemma lexNumber_length: "lexNumber s = Some (x, rest) \<Longrightarrow> length rest < length s"
  unfolding lexNumber_def Let_def
  by (auto split: option.splits dest!: lexInt_length lexFrac_length lexExp_length)

text \<open>
  The tokens of a text, a SyntaxError where no token starts. JSON white space is TAB,
  LF, CR and SP only. Each scanner leaves a shorter input, which is why \<open>tokens\<close>
  ends.
\<close>

definition isJsonSpace :: "char \<Rightarrow> bool" where
  "isJsonSpace c = (of_char c \<in> {9, 10, 13, 32 :: nat})"

definition punctuation :: "char \<Rightarrow> token option" where
  "punctuation c =
     (if c = CHR ''{'' then Some LBrace
      else if c = CHR ''}'' then Some RBrace
      else if c = CHR ''['' then Some LBracket
      else if c = CHR '']'' then Some RBracket
      else if c = CHR '':'' then Some Colon
      else if c = CHR '','' then Some Comma
      else None)"

definition consToken :: "token \<Rightarrow> token list parsed \<Rightarrow> token list parsed" where
  "consToken t r =
     (case r of
        SyntaxError \<Rightarrow> SyntaxError
      | OutsideModel \<Rightarrow> OutsideModel
      | Parsed ts \<Rightarrow> Parsed (t # ts))"

function tokens :: "string \<Rightarrow> token list parsed" where
  "tokens [] = Parsed []"
| "tokens (c # cs) =
     (if isJsonSpace c then tokens cs
      else if punctuation c \<noteq> None then consToken (the (punctuation c)) (tokens cs)
      else if c = CHR 0x22 then
        (case lexString [] cs of
           SyntaxError \<Rightarrow> SyntaxError
         | OutsideModel \<Rightarrow> OutsideModel
         | Parsed (s, rest) \<Rightarrow> consToken (TString s) (tokens rest))
      else if prefix ''true'' (c # cs) then consToken TTrue (tokens (drop 3 cs))
      else if prefix ''false'' (c # cs) then consToken TFalse (tokens (drop 4 cs))
      else if prefix ''null'' (c # cs) then consToken TNull (tokens (drop 3 cs))
      else
        (case lexNumber (c # cs) of
           None \<Rightarrow> SyntaxError
         | Some (x, rest) \<Rightarrow> consToken (TNumber x) (tokens rest)))"
  by pat_completeness auto
termination
  by (relation "measure length") (auto dest: lexString_length lexNumber_length intro: less_SucI)


subsection \<open>The parser\<close>

text \<open>
  A pushdown recogniser over the tokens. The stack holds the containers that are open:
  an array with its elements so far (latest first), an object with its members so far,
  and above an object the key whose value is being read.
\<close>

datatype frame = ArrayF "jsval list" | ObjectF "(string \<times> jsval) list" | MemberF string

datatype expecting = Val | ValOrClose | KeyOrClose | Key | ColonAfterKey | CommaOrClose

datatype pstate = Expect expecting "frame list" | Done jsval

text \<open>A value is complete: it is the result, or goes into the container on top.\<close>

fun complete :: "jsval \<Rightarrow> frame list \<Rightarrow> pstate option" where
  "complete v [] = Some (Done v)"
| "complete v (ArrayF xs # st) = Some (Expect CommaOrClose (ArrayF (v # xs) # st))"
| "complete v (MemberF k # ObjectF ms # st) =
     Some (Expect CommaOrClose (ObjectF (setProperty k v ms) # st))"
| "complete v st = None"

fun startValue :: "token \<Rightarrow> frame list \<Rightarrow> pstate option" where
  "startValue LBrace st = Some (Expect KeyOrClose (ObjectF [] # st))"
| "startValue LBracket st = Some (Expect ValOrClose (ArrayF [] # st))"
| "startValue (TString s) st = complete (JStr s) st"
| "startValue (TNumber x) st = complete (JNum x) st"
| "startValue TTrue st = complete (JBool True) st"
| "startValue TFalse st = complete (JBool False) st"
| "startValue TNull st = complete JNull st"
| "startValue t st = None"

fun step :: "pstate \<Rightarrow> token \<Rightarrow> pstate option" where
  "step (Done v) t = None"
| "step (Expect Val st) t = startValue t st"
| "step (Expect ValOrClose (ArrayF xs # st)) RBracket = complete (JArr (rev xs)) st"
| "step (Expect ValOrClose st) t = startValue t st"
| "step (Expect KeyOrClose (ObjectF ms # st)) RBrace = complete (JObj ms) st"
| "step (Expect KeyOrClose st) (TString k) = Some (Expect ColonAfterKey (MemberF k # st))"
| "step (Expect Key st) (TString k) = Some (Expect ColonAfterKey (MemberF k # st))"
| "step (Expect ColonAfterKey st) Colon = Some (Expect Val st)"
| "step (Expect CommaOrClose (ArrayF xs # st)) Comma = Some (Expect Val (ArrayF xs # st))"
| "step (Expect CommaOrClose (ObjectF ms # st)) Comma = Some (Expect Key (ObjectF ms # st))"
| "step (Expect CommaOrClose (ArrayF xs # st)) RBracket = complete (JArr (rev xs)) st"
| "step (Expect CommaOrClose (ObjectF ms # st)) RBrace = complete (JObj ms) st"
| "step s t = None"

fun run :: "pstate \<Rightarrow> token list \<Rightarrow> pstate option" where
  "run s [] = Some s"
| "run s (t # ts) = (case step s t of None \<Rightarrow> None | Some s' \<Rightarrow> run s' ts)"

text \<open>
  \<open>JSON.parse(text)\<close>: the value, or \<open>SyntaxError\<close> where it throws one;
  \<open>OutsideModel\<close> for a text with an escape above U+00FF in a string.
\<close>

definition JSON_parse :: "string \<Rightarrow> jsval parsed" where
  "JSON_parse text =
     (case tokens text of
        SyntaxError \<Rightarrow> SyntaxError
      | OutsideModel \<Rightarrow> OutsideModel
      | Parsed ts \<Rightarrow>
          (case run (Expect Val []) ts of
             Some (Done v) \<Rightarrow> Parsed v
           | _ \<Rightarrow> SyntaxError))"

section \<open>Categorization: \<open>callFineTunedLLM\<close> (llm-models.ts)\<close>

text \<open>
  \<open>generatedText.match(/\{[\s\S]*\}/)\<close>: the match starts at the first opening brace
  and, the star being greedy, runs to the last closing brace after it; there is no match
  when the text has no opening brace or no closing brace after the first opening one.
\<close>

definition jsonMatch :: "string \<Rightarrow> string option" where
  "jsonMatch text =
     (let fromBrace = dropWhile (\<lambda>c. c \<noteq> CHR ''{'') text
      in if fromBrace = [] then None
         else
           let toBrace = rev (dropWhile (\<lambda>c. c \<noteq> CHR ''}'') (rev (tl fromBrace)))
           in if toBrace = [] then None else Some (CHR ''{'' # toBrace))"

text \<open>
  The platform calls. What a call throws (or its promise rejects with) is an \<open>Error\<close>
  with its message, or some other value. \<open>await fetch(...)\<close> gives a response or
  throws; the response carries what \<open>await response.text()\<close> and
  \<open>await response.json()\<close> give. These outcomes are inputs of the model.
\<close>

datatype thrown = Error string | NotAnError

datatype 'a outcome = Throws thrown | Returns 'a

record response =
  ok :: bool
  status :: nat
  responseText :: "string outcome"
  responseJson :: "jsval outcome"

datatype LLMModel = llama | mistral | qwen

text \<open>
  The ways \<open>callFineTunedLLM\<close> throws: what a platform call threw, passed on by the
  outer \<open>catch\<close>; the server's error text (\<open>!response.ok\<close>); the TypeError of reading
  a property of \<open>null\<close>; \<open>new Error(result.error || 'Model processing failed')\<close> with
  its argument; \<open>Failed to parse LLM output\<close>; and \<open>Invalid LLM output structure -
  missing required fields\<close>.
\<close>

datatype llm_error =
    Rethrown thrown
  | LocalModelServerError string
  | TypeErrorOnResult
  | ModelProcessingFailed jsval
  | FailedToParse
  | InvalidStructure

definition nullish :: "jsval \<Rightarrow> bool" where
  "nullish v = (v = JNull \<or> v = JUndefined)"

text \<open>\<open>result.generated_text || result.output || ''\<close>\<close>

definition generatedTextOf :: "jsval \<Rightarrow> jsval" where
  "generatedTextOf result =
     orElse (orElse (get result ''generated_text'') (get result ''output'')) (JStr [])"

text \<open>The object that \<open>parsePlainTextOutput\<close> returns, as a value.\<close>

definition toObject :: "LLMOutput \<Rightarrow> jsval" where
  "toObject output =
     JObj [(''department'', JStr (department output)),
           (''location'', JStr (location output)),
           (''severity'', JStr (severity output)),
           (''description'', JStr (description output)),
           (''summary'', JStr (summary output))]"

text \<open>
  The inner \<open>try\<close>/\<open>catch\<close> (\<open>// Try to parse the output\<close>). An object or an array
  is taken as it is. A string is searched for a JSON span; a span that parses is taken,
  and where there is no span, or \<open>JSON.parse\<close> throws, the text goes to
  \<open>parsePlainTextOutput\<close>. Any other value has no \<open>match\<close> method: the TypeError is
  caught, \<open>parsePlainTextOutput\<close> throws on it in turn, and the error is
  \<open>Failed to parse LLM output\<close>. The result is \<open>None\<close> where the model has no
  answer: the span holds an escape above U+00FF.
\<close>

definition parseGeneratedText :: "jsval \<Rightarrow> (llm_error + jsval) option" where
  "parseGeneratedText generatedText =
     (case generatedText of
        JObj ms \<Rightarrow> Some (Inr generatedText)
      | JArr xs \<Rightarrow> Some (Inr generatedText)
      | JStr s \<Rightarrow>
          (case jsonMatch s of
             Some candidate \<Rightarrow>
               (case JSON_parse candidate of
                  Parsed parsed \<Rightarrow> Some (Inr parsed)
                | SyntaxError \<Rightarrow> Some (Inr (toObject (parsePlainTextOutput s)))
                | OutsideModel \<Rightarrow> None)
           | None \<Rightarrow> Some (Inr (toObject (parsePlainTextOutput s))))
      | _ \<Rightarrow> Some (Inl FailedToParse))"

text \<open>
  \<open>// Validate the output - ensure we have all required fields\<close>:
  \<open>!parsedOutput.department || !parsedOutput.severity || !parsedOutput.description ||
  !parsedOutput.summary\<close> throws, anything else is returned.
\<close>

definition validateOutput :: "jsval \<Rightarrow> llm_error + jsval" where
  "validateOutput parsedOutput =
     (if \<not> truthy (get parsedOutput ''department'') \<or> \<not> truthy (get parsedOutput ''severity'')
         \<or> \<not> truthy (get parsedOutput ''description'') \<or> \<not> truthy (get parsedOutput ''summary'')
      then Inl InvalidStructure
      else Inr parsedOutput)"

text \<open>
  \<open>callFineTunedLLM(userInput, model)\<close>, given the outcome of its \<open>fetch\<close>. The
  request carries \<open>userInput\<close> (whatever value the caller passes), the model name
  and the instruction; nothing after the request reads them again. The result is
  \<open>Some\<close> of what the function throws (\<open>Inl\<close>) or returns (\<open>Inr\<close>), and
  \<open>None\<close> only where \<open>parseGeneratedText\<close> has no answer.
\<close>

definition callFineTunedLLM ::
    "'u \<Rightarrow> LLMModel \<Rightarrow> response outcome \<Rightarrow> (llm_error + jsval) option" where
  "callFineTunedLLM userInput model fetched =
     (case fetched of
        Throws e \<Rightarrow> Some (Inl (Rethrown e))
      | Returns response \<Rightarrow>
          if \<not> ok response then
            (case responseText response of
               Throws e \<Rightarrow> Some (Inl (Rethrown e))
             | Returns error \<Rightarrow> Some (Inl (LocalModelServerError error)))
          else
            (case responseJson response of
               Throws e \<Rightarrow> Some (Inl (Rethrown e))
             | Returns result \<Rightarrow>
                 if nullish result then Some (Inl TypeErrorOnResult)
                 else if \<not> truthy (get result ''success'')
                 then Some (Inl (ModelProcessingFailed
                                   (orElse (get result ''error'')
                                      (JStr ''Model processing failed''))))
                 else
                   (case parseGeneratedText (generatedTextOf result) of
                      None \<Rightarrow> None
                    | Some (Inl e) \<Rightarrow> Some (Inl e)
                    | Some (Inr parsedOutput) \<Rightarrow> Some (validateOutput parsedOutput))))"

text \<open>
  A response \<open>200 OK\<close> whose body is \<open>{"generated_text": g, "success": true,
  "model_used": "mistral"}\<close>, to state what the function does with a generated text.
\<close>

definition generated :: "jsval \<Rightarrow> response outcome" where
  "generated g =
     Returns \<lparr>ok = True, status = 200,
              responseText = Throws (Error ''body stream already read''),
              responseJson = Returns (JObj [(''generated_text'', g), (''success'', JBool True),
                                            (''model_used'', JStr ''mistral'')])\<rparr>"

section \<open>The service clients (whisper-local.ts and the grievance client)\<close>

text \<open>The decimal digits of a number, as a template literal prints it.\<close>

fun decimal :: "nat \<Rightarrow> string" where
  "decimal n =
     (if n < 10 then [char_of (48 + n)]
      else decimal (n div 10) @ [char_of (48 + n mod 10)])"

text \<open>\<open>error instanceof Error ? error.message : 'Unknown error'\<close>\<close>

definition errorMessage :: "thrown \<Rightarrow> string" where
  "errorMessage error = (case error of Error message \<Rightarrow> message | NotAnError \<Rightarrow> ''Unknown error'')"

text \<open>\<open>try { body } catch (error) { handler }\<close>\<close>

definition tryCatch :: "'a outcome \<Rightarrow> (thrown \<Rightarrow> 'a outcome) \<Rightarrow> 'a outcome" where
  "tryCatch body handler = (case body of Throws error \<Rightarrow> handler error | Returns v \<Rightarrow> Returns v)"

text \<open>
  The statements after \<open>await fetch(...)\<close>, the same in the three clients:
  \<open>if (!response.ok) throw new Error(`Server error: ${response.status}`)\<close>, then
  \<open>return await response.json()\<close>.
\<close>

definition jsonOrThrow :: "response outcome \<Rightarrow> jsval outcome" where
  "jsonOrThrow fetched =
     (case fetched of
        Throws error \<Rightarrow> Throws error
      | Returns response \<Rightarrow>
          if \<not> ok response then Throws (Error (''Server error: '' @ decimal (status response)))
          else responseJson response)"

text \<open>
  \<open>transcribeAudioLocal(audioBlob)\<close>, given the outcome of its \<open>fetch\<close>. The blob
  (its bytes here) goes into the request only.
\<close>

definition transcribeAudioLocal :: "nat list \<Rightarrow> response outcome \<Rightarrow> jsval outcome" where
  "transcribeAudioLocal audioBlob fetched =
     tryCatch (jsonOrThrow fetched)
       (\<lambda>error. Returns (JObj [(''text'', JStr []), (''success'', JBool False),
                                (''error'', JStr (errorMessage error))]))"

text \<open>
  \<open>translateToEnglishLocal(text)\<close>. Its caller passes the \<open>text\<close> property of a decoded
  body, so the argument is a value here, a string in all that is intended.
\<close>

definition translateToEnglishLocal :: "jsval \<Rightarrow> response outcome \<Rightarrow> jsval outcome" where
  "translateToEnglishLocal txt fetched =
     tryCatch (jsonOrThrow fetched)
       (\<lambda>error. Returns (JObj [(''translated_text'', JStr []), (''original_text'', txt),
                                (''success'', JBool False),
                                (''error'', JStr (errorMessage error))]))"

text \<open>\<open>categorizeGrievanceLocal(text, model, fastMode)\<close>\<close>

definition categorizeGrievanceLocal ::
    "string \<Rightarrow> LLMModel \<Rightarrow> bool \<Rightarrow> response outcome \<Rightarrow> jsval outcome" where
  "categorizeGrievanceLocal txt model fastMode fetched =
     tryCatch (jsonOrThrow fetched)
       (\<lambda>error. Returns (JObj [(''text'', JStr []), (''generated_text'', JStr []),
                                (''success'', JBool False),
                                (''error'', JStr (errorMessage error))]))"

section \<open>The pipeline: \<open>handleTranscribe\<close> and \<open>processWithAI\<close> (ComplaintForm.tsx)\<close>

text \<open>
  The state of the component that the two handlers write: the \<open>transcription\<close> state,
  the six fields of \<open>formData\<close>, and the titles of the toasts shown, in order.
\<close>

record form =
  transcriptionField :: jsval
  descriptionField :: jsval
  locationField :: jsval
  severityField :: jsval
  departmentIdField :: jsval
  summaryField :: jsval
  llmModelUsedField :: jsval
  toasts :: "string list"

definition toast :: "string \<Rightarrow> form \<Rightarrow> form" where
  "toast title f = f\<lparr>toasts := toasts f @ [title]\<rparr>"

text \<open>The value of \<open>selectedLLMModel\<close>: the name of the model as a string.\<close>

fun modelId :: "LLMModel \<Rightarrow> string" where
  "modelId llama = ''llama''"
| "modelId mistral = ''mistral''"
| "modelId qwen = ''qwen''"

text \<open>
  \<open>processWithAI(grievanceText)\<close>. It awaits \<open>callFineTunedLLM(grievanceText,
  selectedLLMModel)\<close>; \<open>llmFetch\<close> is what the \<open>fetch\<close> of that call gives for a
  request that carries the text. \<open>findDepartment\<close> is what the search
  \<open>departments.find(...)\<close> of the departments loaded from the database gives for the
  output: a department, \<open>undefined\<close>, or a TypeError. Everything is inside
  \<open>try\<close>/\<open>catch\<close>: a throw ends in the toast \<open>AI Processing Failed\<close>, and the
  function itself never throws. The result is \<open>None\<close> only where
  \<open>callFineTunedLLM\<close> has no answer in this model.
\<close>

definition processWithAI ::
    "LLMModel \<Rightarrow> (jsval \<Rightarrow> response outcome) \<Rightarrow> (jsval \<Rightarrow> jsval outcome) \<Rightarrow> jsval \<Rightarrow> form \<Rightarrow>
     form option" where
  "processWithAI selectedLLMModel llmFetch findDepartment grievanceText f =
     (let f1 = toast ''AI Processing'' f
      in case callFineTunedLLM grievanceText selectedLLMModel (llmFetch grievanceText) of
           None \<Rightarrow> None
         | Some (Inl error) \<Rightarrow> Some (toast ''AI Processing Failed'' f1)
         | Some (Inr llmOutput) \<Rightarrow>
             (case findDepartment llmOutput of
                Throws error \<Rightarrow> Some (toast ''AI Processing Failed'' f1)
              | Returns matchedDept \<Rightarrow>
                  Some (toast ''AI Auto-fill Complete''
                          (f1\<lparr>descriptionField := get llmOutput ''description'',
                              severityField := get llmOutput ''severity'',
                              locationField :=
                                orElse (get llmOutput ''location'') (locationField f1),
                              departmentIdField :=
                                orElse (get matchedDept ''id'') (departmentIdField f1),
                              summaryField := get llmOutput ''summary'',
                              llmModelUsedField := JStr (modelId selectedLLMModel)\<rparr>))))"

text \<open>
  \<open>handleTranscribe(audio)\<close>, given whether the health check found the server, the
  outcomes of the two fetches, the \<open>useAIAutofill\<close> switch and the inputs of
  \<open>processWithAI\<close>. Reading a property of \<open>null\<close> throws a TypeError, which the
  handler's \<open>catch\<close> turns into the toast \<open>Transcription failed\<close>, as it does with
  the error thrown for a transcription without \<open>success\<close>.
\<close>

definition handleTranscribe ::
    "form \<Rightarrow> nat list \<Rightarrow> bool \<Rightarrow> response outcome \<Rightarrow> response outcome \<Rightarrow> bool \<Rightarrow>
     LLMModel \<Rightarrow> (jsval \<Rightarrow> response outcome) \<Rightarrow> (jsval \<Rightarrow> jsval outcome) \<Rightarrow> form option" where
  "handleTranscribe f audio isLocalAvailable transcribeFetched translateFetched useAIAutofill
       selectedLLMModel llmFetch findDepartment =
     (if \<not> isLocalAvailable then Some (toast ''Local Whisper Server Required'' f)
      else
        (case transcribeAudioLocal audio transcribeFetched of
           Throws error \<Rightarrow> Some (toast ''Transcription failed'' f)
         | Returns result \<Rightarrow>
             if nullish result \<or> \<not> truthy (get result ''success'')
             then Some (toast ''Transcription failed'' f)
             else
               let transcribedText = get result ''text'';
                   f1 = f\<lparr>transcriptionField := transcribedText\<rparr>
               in case translateToEnglishLocal transcribedText translateFetched of
                    Throws error \<Rightarrow> Some (toast ''Transcription failed'' f1)
                  | Returns translationResult \<Rightarrow>
                      if nullish translationResult then Some (toast ''Transcription failed'' f1)
                      else
                        let finalText =
                              (if truthy (get translationResult ''success'')
                                  \<and> truthy (get translationResult ''translated_text'')
                               then get translationResult ''translated_text''
                               else transcribedText);
                            f2 = toast ''Transcription complete''
                                   (f1\<lparr>descriptionField := finalText\<rparr>)
                        in if useAIAutofill
                           then processWithAI selectedLLMModel llmFetch findDepartment finalText f2
                           else Some f2))"

text \<open>
  A call that fails: \<open>fetch\<close> rejects (a network error), the response is not
  \<open>ok\<close> (a status outside 200 to 299), or decoding the body throws.
\<close>

definition callFailed :: "response outcome \<Rightarrow> bool" where
  "callFailed fetched =
     (case fetched of
        Throws error \<Rightarrow> True
      | Returns response \<Rightarrow>
          \<not> ok response \<or> (case responseJson response of Throws error \<Rightarrow> True | Returns v \<Rightarrow> False))"

text \<open>
  A translation that fails: the call fails, or the service answers with a body whose
  \<open>success\<close> is false (or missing) or whose \<open>translated_text\<close> is empty (or
  missing). The body \<open>null\<close> is not among them: the handler cannot read it.
\<close>

definition translationFailed :: "response outcome \<Rightarrow> bool" where
  "translationFailed fetched =
     (case fetched of
        Throws error \<Rightarrow> True
      | Returns response \<Rightarrow>
          \<not> ok response \<or>
          (case responseJson response of
             Throws error \<Rightarrow> True
           | Returns body \<Rightarrow>
               \<not> nullish body \<and>
               (\<not> truthy (get body ''success'') \<or> \<not> truthy (get body ''translated_text''))))"

section \<open>Strings, lines and labels\<close>

text \<open>
  Splitting at a separator and joining again gives the text back, so the value of a line
  is what follows its first colon.
\<close>

lemma split_not_Nil: "split sep s \<noteq> []"
  by (induction s) (auto split: list.splits)

lemma split_before_sep: "sep \<notin> set key \<Longrightarrow> split sep (key @ sep # v) = key # split sep v"
  by (induction key) auto

lemma join_split: "join sep (split sep s) = s"
proof (induction s)
  case Nil
  show ?case by simp
next
  case (Cons c s)
  obtain p ps where ps: "split sep s = p # ps"
    using split_not_Nil by (cases "split sep s") auto
  show ?case
  proof (cases "c = sep")
    case True
    with Cons ps show ?thesis by simp
  next
    case False
    with Cons ps show ?thesis by (cases ps) auto
  qed
qed

text \<open>
  The loop body on a line \<open>key:v\<close> whose key has no colon: the source's case
  distinction on the key \<open>key\<close> and the value \<open>trim v\<close>.
\<close>

lemma parseLine_key_value:
  assumes "CHR '':'' \<notin> set key"
  shows "parseLine output (key @ CHR '':'' # v) =
     (let val = trim v; lowerKey = trim (toLowerCase key)
      in if val = [] then output
         else if includesStr lowerKey ''department'' then
                (let dept = toLowerCase val
                 in if includesStr dept ''road'' \<or> includesStr dept ''traffic''
                    then output\<lparr>department := ''roads_and_traffic''\<rparr>
                    else if includesStr dept ''water''
                    then output\<lparr>department := ''water_supply''\<rparr>
                    else if includesStr dept ''waste'' \<or> includesStr dept ''garbage''
                    then output\<lparr>department := ''solid_waste_management''\<rparr>
                    else output)
              else if includesStr lowerKey ''severity'' then
                (let sev = toLowerCase val
                 in if sev \<in> set severityLabels
                    then output\<lparr>severity := sev\<rparr>
                    else output)
              else if includesStr lowerKey ''location'' then output\<lparr>location := val\<rparr>
              else if includesStr lowerKey ''description'' then output\<lparr>description := val\<rparr>
              else if includesStr lowerKey ''summary'' then output\<lparr>summary := val\<rparr>
              else output)"
  unfolding parseLine_def severityLabels_def
  by (simp only: split_before_sep[OF assms] list.sel join_split Let_def)

text \<open>
  The line-oriented parser gives labels of the type for department and severity, and a
  description and a summary that are not empty; its result passes the validation.
\<close>

lemma parseLine_labels:
  assumes "department output \<in> set departmentLabels" and "severity output \<in> set severityLabels"
  shows "department (parseLine output line) \<in> set departmentLabels
       \<and> severity (parseLine output line) \<in> set severityLabels"
  using assms
  by (auto simp add: parseLine_def Let_def departmentLabels_def severityLabels_def)

lemma foldl_parseLine_labels:
  assumes "department out \<in> set departmentLabels" and "severity out \<in> set severityLabels"
  shows "department (foldl parseLine out ls) \<in> set departmentLabels
       \<and> severity (foldl parseLine out ls) \<in> set severityLabels"
  using assms by (induction ls arbitrary: out) (simp_all add: parseLine_labels)

lemma ensureFields_labels:
  "department (ensureFields output) = department output"
  "severity (ensureFields output) = severity output"
  "location (ensureFields output) = location output"
  by (simp_all add: ensureFields_def Let_def)

lemma ensureFields_nonempty:
  "description (ensureFields output) \<noteq> []" "summary (ensureFields output) \<noteq> []"
  by (auto simp add: ensureFields_def Let_def substring0_def)

lemma parsePlainTextOutput_labels:
  "department (parsePlainTextOutput t) \<in> set departmentLabels"
  "severity (parsePlainTextOutput t) \<in> set severityLabels"
  "description (parsePlainTextOutput t) \<noteq> []"
  "summary (parsePlainTextOutput t) \<noteq> []"
  unfolding parsePlainTextOutput_def
  using foldl_parseLine_labels[of initialOutput "textLines t"]
  by (simp_all add: ensureFields_labels ensureFields_nonempty initialOutput_def departmentLabels_def severityLabels_def)

lemma validateOutput_plain:
  "validateOutput (toObject (parsePlainTextOutput t)) = Inr (toObject (parsePlainTextOutput t))"
  using parsePlainTextOutput_labels[of t]
  by (auto simp add: validateOutput_def toObject_def departmentLabels_def severityLabels_def)

text \<open>
  Trimming: the two ends are stripped independently, so a text that starts with a label
  such as \<open>Severity:\<close> keeps the label, and trimming the value twice changes nothing.
\<close>

lemma trim_trimEnd: "trim s = trimEnd (dropWhile isWhiteSpace s)"
  by (simp add: trim_def trimEnd_def)

lemma trimEnd_Nil: "trimEnd [] = []"
  by (simp add: trimEnd_def)

lemma trimEnd_Cons:
  "trimEnd (c # cs) = (if trimEnd cs = [] \<and> isWhiteSpace c then [] else c # trimEnd cs)"
  by (auto simp add: trimEnd_def dropWhile_append)

lemma trimEnd_append:
  "trimEnd (p @ s) = (if trimEnd s = [] then trimEnd p else p @ trimEnd s)"
  by (induction p) (auto simp add: trimEnd_Cons trimEnd_Nil)

lemma trimEnd_idem: "trimEnd (trimEnd s) = trimEnd s"
  by (simp add: trimEnd_def)

lemma dropWhile_trimEnd:
  "dropWhile isWhiteSpace (trimEnd s) = trimEnd (dropWhile isWhiteSpace s)"
proof (induction s)
  case Nil
  show ?case by (simp add: trimEnd_def)
next
  case (Cons c cs)
  show ?case
  proof (cases "isWhiteSpace c")
    case True
    show ?thesis
    proof (cases "trimEnd cs = []")
      case e: True
      then have "trimEnd (dropWhile isWhiteSpace cs) = []"
        using Cons by (metis dropWhile.simps(1))
      with True e show ?thesis by (simp add: trimEnd_Cons)
    next
      case False
      with True Cons show ?thesis by (simp add: trimEnd_Cons)
    qed
  next
    case False
    then show ?thesis by (simp add: trimEnd_Cons)
  qed
qed

lemma trim_trimEnd_arg: "trim (trimEnd s) = trim s"
  by (simp add: trim_trimEnd dropWhile_trimEnd trimEnd_idem)

lemma trim_label:
  assumes "p \<noteq> []" and "\<not> isWhiteSpace (hd p)" and "\<not> isWhiteSpace (last p)"
  shows "trim (p @ v) = p @ trimEnd v"
proof -
  from assms(1,2) have a: "dropWhile isWhiteSpace (p @ v) = p @ v"
    by (cases p) auto
  from assms(1,3) have b: "trimEnd p = p"
    by (cases p rule: rev_cases) (auto simp add: trimEnd_def)
  show ?thesis by (simp add: trim_trimEnd a trimEnd_append b)
qed

text \<open>A text of one line is that line, trimmed; the loop runs once.\<close>

lemma split_no_sep: "sep \<notin> set s \<Longrightarrow> split sep s = [s]"
  by (induction s) auto

lemma textLines_one_line:
  assumes "CHR 0x0A \<notin> set s" and "trim s \<noteq> []"
  shows "textLines s = [trim s]"
  using assms by (simp add: textLines_def split_no_sep)

lemma parsePlainTextOutput_one_line:
  assumes "CHR 0x0A \<notin> set s" and "trim s \<noteq> []"
  shows "parsePlainTextOutput s = ensureFields (parseLine initialOutput (trim s))"
  by (simp add: parsePlainTextOutput_def textLines_one_line[OF assms])

text \<open>The loop body on a severity line and on a department line.\<close>

lemma parseLine_severity:
  assumes "CHR '':'' \<notin> set key"
      and "includesStr (trim (toLowerCase key)) ''severity''"
      and "\<not> includesStr (trim (toLowerCase key)) ''department''"
  shows "parseLine out (key @ CHR '':'' # v) =
           (if toLowerCase (trim v) \<in> set severityLabels
            then out\<lparr>severity := toLowerCase (trim v)\<rparr>
            else out)"
  using assms(2,3) unfolding parseLine_key_value[OF assms(1)] Let_def
  by (auto simp add: severityLabels_def toLowerCase_def)

lemma parseLine_department:
  assumes "CHR '':'' \<notin> set key"
      and "includesStr (trim (toLowerCase key)) ''department''"
  shows "parseLine out (key @ CHR '':'' # v) =
           (let dept = toLowerCase (trim v)
            in if includesStr dept ''road'' \<or> includesStr dept ''traffic''
               then out\<lparr>department := ''roads_and_traffic''\<rparr>
               else if includesStr dept ''water''
               then out\<lparr>department := ''water_supply''\<rparr>
               else if includesStr dept ''waste'' \<or> includesStr dept ''garbage''
               then out\<lparr>department := ''solid_waste_management''\<rparr>
               else out)"
  using assms(2) unfolding parseLine_key_value[OF assms(1)] Let_def
  by (auto simp add: toLowerCase_def)

section \<open>What \<open>callFineTunedLLM\<close> does with a generated text\<close>

text \<open>
  With a response that carries the generated value \<open>g\<close>, the function parses
  \<open>g || ''\<close> and validates the result; for a string the parse is the JSON span if it
  has one that parses, the line-oriented parser otherwise.
\<close>

lemma callFineTunedLLM_generated:
  "callFineTunedLLM userInput model (generated g) =
     (case parseGeneratedText (orElse g (JStr [])) of
        None \<Rightarrow> None
      | Some (Inl e) \<Rightarrow> Some (Inl e)
      | Some (Inr parsedOutput) \<Rightarrow> Some (validateOutput parsedOutput))"
  by (simp add: callFineTunedLLM_def generated_def nullish_def generatedTextOf_def orElse_def)

lemma orElse_JStr: "orElse (JStr s) (JStr []) = JStr s"
  by (simp add: orElse_def)

lemma callFineTunedLLM_generated_text:
  "callFineTunedLLM userInput model (generated (JStr t)) =
     (case jsonMatch t of
        None \<Rightarrow> Some (Inr (toObject (parsePlainTextOutput t)))
      | Some candidate \<Rightarrow>
          (case JSON_parse candidate of
             SyntaxError \<Rightarrow> Some (Inr (toObject (parsePlainTextOutput t)))
           | OutsideModel \<Rightarrow> None
           | Parsed parsed \<Rightarrow> Some (validateOutput parsed)))"
  by (simp add: callFineTunedLLM_generated orElse_JStr parseGeneratedText_def validateOutput_plain
        split: option.splits parsed.splits)

text \<open>What the function returns has passed the guard: its four fields are not empty.\<close>

lemma callFineTunedLLM_returns_checked:
  assumes "callFineTunedLLM userInput model fetched = Some (Inr v)"
  shows "truthy (get v ''department'') \<and> truthy (get v ''severity'')
       \<and> truthy (get v ''description'') \<and> truthy (get v ''summary'')"
  using assms
  by (auto simp add: callFineTunedLLM_def validateOutput_def
        split: outcome.splits if_splits option.splits sum.splits)

lemma jsonMatch_span:
  assumes "CHR ''{'' \<notin> set pre" and "CHR ''}'' \<notin> set post"
  shows "jsonMatch (pre @ CHR ''{'' # mid @ CHR ''}'' # post) = Some (CHR ''{'' # mid @ ''}'')"
proof -
  have a: "dropWhile (\<lambda>c. c \<noteq> CHR ''{'') (pre @ CHR ''{'' # mid @ CHR ''}'' # post)
            = CHR ''{'' # mid @ CHR ''}'' # post"
    using assms(1) by (auto simp add: dropWhile_append3)
  have b: "dropWhile (\<lambda>c. c \<noteq> CHR ''}'') (rev (mid @ CHR ''}'' # post)) = CHR ''}'' # rev mid"
    using assms(2) by (auto simp add: dropWhile_append3)
  show ?thesis
    unfolding jsonMatch_def Let_def a
    by (simp only: list.sel b) simp
qed

lemma jsonMatch_whole: "jsonMatch (CHR ''{'' # mid @ ''}'') = Some (CHR ''{'' # mid @ ''}'')"
  using jsonMatch_span[of "[]" "[]" mid] by simp

section \<open>The claims\<close>

subsection \<open>C1: labels and location of the record\<close>

text \<open>
  C1 says that whatever the categorization returns, the record that \<open>callFineTunedLLM\<close>
  gives has all five fields, a department among the three labels and a severity among
  the four, and that a value of an embedded JSON object never reaches department or
  severity unchecked. The line-oriented parser keeps this (\<open>parsePlainTextOutput_labels\<close>),
  and the type \<open>LLMOutput\<close> and the output format document say it. The JSON path does
  not: the parsed object is returned after a test that four fields are not empty. Here
  the generated text is a JSON object with the department \<open>parks\<close>, the severity
  \<open>urgent\<close> and no location, and the function returns it as it is.
\<close>

theorem embedded_json_returned_unchecked:
  \<open>callFineTunedLLM ''jhoola toota hua hai'' llama
     (generated (JStr ''{"department":"parks","severity":"urgent","description":"Broken swing in the park","summary":"Broken swing"}''))
   = Some (Inr (JObj [(''department'', JStr ''parks''), (''severity'', JStr ''urgent''),
                      (''description'', JStr ''Broken swing in the park''),
                      (''summary'', JStr ''Broken swing'')]))
   \<and> ''parks'' \<notin> set departmentLabels \<and> ''urgent'' \<notin> set severityLabels
   \<and> get (JObj [(''department'', JStr ''parks''), (''severity'', JStr ''urgent''),
                (''description'', JStr ''Broken swing in the park''),
                (''summary'', JStr ''Broken swing'')]) ''location'' = JUndefined\<close>
  by code_simp

subsection \<open>C2: severity\<close>

text \<open>
  C2 as stated has the raw severity \<open>Low\<close> normalize to \<open>medium\<close>. The parser
  lowercases the value before it compares, so \<open>Low\<close> gives \<open>low\<close>.
\<close>

theorem severity_Low_counterexample:
  "severity (parsePlainTextOutput ''Severity: Low'') \<noteq> ''medium''"
  by code_simp

text \<open>
  C2, amended. For every raw severity value \<open>v\<close> (the rest of a \<open>Severity:\<close> line):
  the parser trims and lowercases it and accepts it exactly when the lowercased value is
  one of \<open>low\<close>, \<open>medium\<close>, \<open>high\<close>, \<open>critical\<close>, which is then the severity; any
  other value, the empty one too, leaves the default \<open>medium\<close>. So \<open>Low\<close> gives
  \<open>low\<close>, \<open>urgent\<close> gives \<open>medium\<close> and \<open>critical\<close> gives \<open>critical\<close>.
\<close>

theorem severity_of_one_line:
  assumes "CHR 0x0A \<notin> set v"
  shows "severity (parsePlainTextOutput (''Severity:'' @ v)) =
           (if toLowerCase (trim v) \<in> set severityLabels then toLowerCase (trim v) else ''medium'')"
proof -
  have t: "trim (''Severity:'' @ v) = ''Severity:'' @ trimEnd v"
    by (rule trim_label) (simp_all add: isWhiteSpace_def)
  have n: "CHR 0x0A \<notin> set (''Severity:'' @ v)" using assms by simp
  have c: "CHR '':'' \<notin> set ''Severity''" by simp
  have k: "includesStr (trim (toLowerCase ''Severity'')) ''severity''"
    by code_simp
  have d: "\<not> includesStr (trim (toLowerCase ''Severity'')) ''department''"
    by code_simp
  have "parsePlainTextOutput (''Severity:'' @ v)
          = ensureFields (parseLine initialOutput (''Severity'' @ CHR '':'' # trimEnd v))"
    using parsePlainTextOutput_one_line[OF n] t by simp
  also have "parseLine initialOutput (''Severity'' @ CHR '':'' # trimEnd v) =
           (if toLowerCase (trim v) \<in> set severityLabels
            then initialOutput\<lparr>severity := toLowerCase (trim v)\<rparr>
            else initialOutput)"
    unfolding parseLine_severity[OF c k d] trim_trimEnd_arg ..
  finally show ?thesis
    by (simp add: ensureFields_labels initialOutput_def)
qed

theorem severity_of_one_line_witness:
  "CHR 0x0A \<notin> set '' Low''
   \<and> severity (parsePlainTextOutput ''Severity: Low'') = ''low''
   \<and> severity (parsePlainTextOutput ''Severity: urgent'') = ''medium''
   \<and> severity (parsePlainTextOutput ''Severity: critical'') = ''critical''"
proof -
  have h1: "CHR 0x0A \<notin> set '' Low''" by simp
  have h2: "CHR 0x0A \<notin> set '' urgent''" by simp
  have h3: "CHR 0x0A \<notin> set '' critical''" by simp
  have e1: "(if toLowerCase (trim '' Low'') \<in> set severityLabels
             then toLowerCase (trim '' Low'') else ''medium'') = ''low''"
    by code_simp
  have e2: "(if toLowerCase (trim '' urgent'') \<in> set severityLabels
             then toLowerCase (trim '' urgent'') else ''medium'') = ''medium''"
    by code_simp
  have e3: "(if toLowerCase (trim '' critical'') \<in> set severityLabels
             then toLowerCase (trim '' critical'') else ''medium'') = ''critical''"
    by code_simp
  show ?thesis
    using h1 severity_of_one_line[OF h1] severity_of_one_line[OF h2] severity_of_one_line[OF h3]
    unfolding e1 e2 e3 by simp
qed

subsection \<open>C3: description and summary\<close>

text \<open>
  C3 as stated has the description fall back to the original input text when the
  candidate has neither description nor summary. The parser is not given the input
  text: it writes a placeholder. Here the input is \<open>Paani nahi aa raha hai\<close> and the
  generated text has a department line only.
\<close>

theorem description_placeholder_counterexample:
  "callFineTunedLLM ''Paani nahi aa raha hai'' llama (generated (JStr ''Department: water''))
   = Some (Inr (JObj [(''department'', JStr ''water_supply''), (''location'', JStr []),
                      (''severity'', JStr ''medium''),
                      (''description'', JStr ''No description provided''),
                      (''summary'', JStr ''No description provided'')]))"
  by code_simp

text \<open>
  C3, amended. The fallback belongs to the line-oriented parser. With the candidate
  record that the loop has built from the lines of a text: if its description is empty
  and its summary is not, the description of the result is the summary; if both are
  empty, the description of the result is the placeholder \<open>No description provided\<close>.
  A candidate that comes from JSON gets no fallback: without a description (missing or
  empty) it is refused.
\<close>

theorem description_fallback:
  "(let candidate = foldl parseLine initialOutput (textLines t)
    in (description candidate = [] \<and> summary candidate \<noteq> [] \<longrightarrow>
          description (parsePlainTextOutput t) = summary candidate)
     \<and> (description candidate = [] \<and> summary candidate = [] \<longrightarrow>
          description (parsePlainTextOutput t) = ''No description provided''))
   \<and> (\<not> truthy (get parsed ''description'') \<longrightarrow> validateOutput parsed = Inl InvalidStructure)"
  by (simp add: parsePlainTextOutput_def ensureFields_def Let_def validateOutput_def)

theorem description_fallback_witness:
  "description (foldl parseLine initialOutput (textLines ''Summary: Pipe burst'')) = []
   \<and> summary (foldl parseLine initialOutput (textLines ''Summary: Pipe burst'')) \<noteq> []
   \<and> description (parsePlainTextOutput ''Summary: Pipe burst'') = ''Pipe burst''
   \<and> description (foldl parseLine initialOutput (textLines ''Department: water'')) = []
   \<and> summary (foldl parseLine initialOutput (textLines ''Department: water'')) = []
   \<and> description (parsePlainTextOutput ''Department: water'') = ''No description provided''
   \<and> \<not> truthy (get (JObj [(''summary'', JStr ''Pipe burst'')]) ''description'')
   \<and> validateOutput (JObj [(''summary'', JStr ''Pipe burst'')]) = Inl InvalidStructure"
proof -
  have c1: "foldl parseLine initialOutput (textLines ''Summary: Pipe burst'')
              = initialOutput\<lparr>summary := ''Pipe burst''\<rparr>"
    by code_simp
  have c2: "foldl parseLine initialOutput (textLines ''Department: water'')
              = initialOutput\<lparr>department := ''water_supply''\<rparr>"
    by code_simp
  have f: "\<not> truthy (get (JObj [(''summary'', JStr ''Pipe burst'')]) ''description'')"
    by simp
  show ?thesis
    using description_fallback[of "''Summary: Pipe burst''" "JObj [(''summary'', JStr ''Pipe burst'')]"]
      description_fallback[of "''Department: water''" "JObj [(''summary'', JStr ''Pipe burst'')]"] f
    unfolding c1 c2 Let_def
    by (simp add: initialOutput_def)
qed

subsection \<open>C4: department\<close>

text \<open>
  C4 as stated gives \<open>water_supply\<close> to every value that contains \<open>water\<close>. The
  parser looks for \<open>road\<close> and \<open>traffic\<close> first: the value \<open>Water and Roads\<close>
  contains \<open>water\<close> and gives \<open>roads_and_traffic\<close>.
\<close>

theorem department_water_counterexample:
  "includesStr (toLowerCase ''Water and Roads'') ''water''
   \<and> department (parsePlainTextOutput ''Department: Water and Roads'') = ''roads_and_traffic''"
  by code_simp

text \<open>
  C4, amended. For every raw department value \<open>v\<close> (the rest of a \<open>Department:\<close>
  line), trimmed and lowercased, the first of these that applies decides: it contains
  \<open>road\<close> or \<open>traffic\<close>, and the department is \<open>roads_and_traffic\<close>; it contains
  \<open>water\<close>, and it is \<open>water_supply\<close>; it contains \<open>waste\<close> or \<open>garbage\<close>, and it
  is \<open>solid_waste_management\<close>; any other value, the empty one too, leaves the default
  \<open>roads_and_traffic\<close>.
\<close>

theorem department_of_one_line:
  assumes "CHR 0x0A \<notin> set v"
  shows "department (parsePlainTextOutput (''Department:'' @ v)) =
           (let dept = toLowerCase (trim v)
            in if includesStr dept ''road'' \<or> includesStr dept ''traffic''
               then ''roads_and_traffic''
               else if includesStr dept ''water''
               then ''water_supply''
               else if includesStr dept ''waste'' \<or> includesStr dept ''garbage''
               then ''solid_waste_management''
               else ''roads_and_traffic'')"
proof -
  have t: "trim (''Department:'' @ v) = ''Department:'' @ trimEnd v"
    by (rule trim_label) (simp_all add: isWhiteSpace_def)
  have n: "CHR 0x0A \<notin> set (''Department:'' @ v)" using assms by simp
  have c: "CHR '':'' \<notin> set ''Department''" by simp
  have k: "includesStr (trim (toLowerCase ''Department'')) ''department''"
    by code_simp
  have "parsePlainTextOutput (''Department:'' @ v)
          = ensureFields (parseLine initialOutput (''Department'' @ CHR '':'' # trimEnd v))"
    using parsePlainTextOutput_one_line[OF n] t by simp
  also have "parseLine initialOutput (''Department'' @ CHR '':'' # trimEnd v) =
           (let dept = toLowerCase (trim v)
            in if includesStr dept ''road'' \<or> includesStr dept ''traffic''
               then initialOutput\<lparr>department := ''roads_and_traffic''\<rparr>
               else if includesStr dept ''water''
               then initialOutput\<lparr>department := ''water_supply''\<rparr>
               else if includesStr dept ''waste'' \<or> includesStr dept ''garbage''
               then initialOutput\<lparr>department := ''solid_waste_management''\<rparr>
               else initialOutput)"
    unfolding parseLine_department[OF c k] trim_trimEnd_arg ..
  finally show ?thesis
    by (simp add: ensureFields_labels initialOutput_def Let_def)
qed

theorem department_of_one_line_witness:
  "CHR 0x0A \<notin> set '' Water Dept''
   \<and> department (parsePlainTextOutput ''Department: Water Dept'') = ''water_supply''
   \<and> department (parsePlainTextOutput ''Department: Garbage'') = ''solid_waste_management''
   \<and> department (parsePlainTextOutput ''Department: parks'') = ''roads_and_traffic''"
proof -
  have h1: "CHR 0x0A \<notin> set '' Water Dept''" by simp
  have h2: "CHR 0x0A \<notin> set '' Garbage''" by simp
  have h3: "CHR 0x0A \<notin> set '' parks''" by simp
  have e1: "(let dept = toLowerCase (trim '' Water Dept'')
            in if includesStr dept ''road'' \<or> includesStr dept ''traffic''
               then ''roads_and_traffic''
               else if includesStr dept ''water''
               then ''water_supply''
               else if includesStr dept ''waste'' \<or> includesStr dept ''garbage''
               then ''solid_waste_management''
               else ''roads_and_traffic'') = ''water_supply''"
    by code_simp
  have e2: "(let dept = toLowerCase (trim '' Garbage'')
            in if includesStr dept ''road'' \<or> includesStr dept ''traffic''
               then ''roads_and_traffic''
               else if includesStr dept ''water''
               then ''water_supply''
               else if includesStr dept ''waste'' \<or> includesStr dept ''garbage''
               then ''solid_waste_management''
               else ''roads_and_traffic'') = ''solid_waste_management''"
    by code_simp
  have e3: "(let dept = toLowerCase (trim '' parks'')
            in if includesStr dept ''road'' \<or> includesStr dept ''traffic''
               then ''roads_and_traffic''
               else if includesStr dept ''water''
               then ''water_supply''
               else if includesStr dept ''waste'' \<or> includesStr dept ''garbage''
               then ''solid_waste_management''
               else ''roads_and_traffic'') = ''roads_and_traffic''"
    by code_simp
  show ?thesis
    using h1 department_of_one_line[OF h1] department_of_one_line[OF h2]
      department_of_one_line[OF h3]
    unfolding e1 e2 e3 by simp
qed

subsection \<open>C5: JSON before lines\<close>

text \<open>
  C5 as stated has the values of the JSON object used whenever the text holds a JSON
  object that parses and prose around it. The span that is tried runs from the first
  opening brace to the last closing brace of the whole text. Here the first line is a
  JSON object that parses, and the prose after it has braces of its own: the span is the
  whole text, it does not parse, and the line-oriented parser takes the department from
  the prose (the JSON had \<open>water_supply\<close>, \<open>high\<close> and a description).
\<close>

theorem json_first_counterexample:
  \<open>JSON_parse ''{"department":"water_supply","location":"","severity":"high","description":"Pipe burst","summary":"Pipe burst"}''
     = Parsed (JObj [(''department'', JStr ''water_supply''), (''location'', JStr []),
                     (''severity'', JStr ''high''), (''description'', JStr ''Pipe burst''),
                     (''summary'', JStr ''Pipe burst'')])
   \<and> callFineTunedLLM ''pipe phoot gaya'' llama
        (generated (JStr ''{"department":"water_supply","location":"","severity":"high","description":"Pipe burst","summary":"Pipe burst"}\<newline>Department: garbage {urgent}''))
     = Some (Inr (JObj [(''department'', JStr ''solid_waste_management''),
                        (''location'', JStr []), (''severity'', JStr ''medium''),
                        (''description'', JStr ''No description provided''),
                        (''summary'', JStr ''No description provided'')]))\<close>
  by code_simp

text \<open>
  C5, amended. The JSON candidate is the span from the first opening brace of the
  generated text to its last closing brace. If there is such a span and it parses, the
  parsed object is what is validated and returned, whatever the prose says; the
  line-oriented parser is reached only when there is no span or \<open>JSON.parse\<close> throws
  on the span. So a JSON object wins over the prose around it when the prose before it
  has no opening brace and the prose after it has no closing brace. (The two cases of
  the span are stated by what \<open>JSON_parse\<close> gives, a value or a SyntaxError; nothing
  is said of a span that it does not cover.)
\<close>

theorem json_first:
  "(jsonMatch t = Some candidate \<and> JSON_parse candidate = Parsed parsed \<longrightarrow>
      callFineTunedLLM userInput model (generated (JStr t)) = Some (validateOutput parsed))
   \<and> (jsonMatch t = None \<or> (jsonMatch t = Some candidate \<and> JSON_parse candidate = SyntaxError) \<longrightarrow>
      callFineTunedLLM userInput model (generated (JStr t))
        = Some (Inr (toObject (parsePlainTextOutput t))))
   \<and> (\<forall>pre mid post. CHR ''{'' \<notin> set pre \<and> CHR ''}'' \<notin> set post \<longrightarrow>
         jsonMatch (pre @ CHR ''{'' # mid @ CHR ''}'' # post) = Some (CHR ''{'' # mid @ ''}''))"
  using jsonMatch_span by (auto simp add: callFineTunedLLM_generated_text)

theorem json_first_witness:
  \<open>CHR ''{'' \<notin> set ''Severity: low ''
   \<and> CHR ''}'' \<notin> set '' Department: roads''
   \<and> jsonMatch ''Severity: low {"department":"water_supply","location":"","severity":"high","description":"Pipe burst","summary":"Pipe burst"} Department: roads''
       = Some ''{"department":"water_supply","location":"","severity":"high","description":"Pipe burst","summary":"Pipe burst"}''
   \<and> JSON_parse ''{"department":"water_supply","location":"","severity":"high","description":"Pipe burst","summary":"Pipe burst"}''
       = Parsed (JObj [(''department'', JStr ''water_supply''), (''location'', JStr []),
                       (''severity'', JStr ''high''), (''description'', JStr ''Pipe burst''),
                       (''summary'', JStr ''Pipe burst'')])
   \<and> callFineTunedLLM ''pipe phoot gaya'' llama
        (generated (JStr ''Severity: low {"department":"water_supply","location":"","severity":"high","description":"Pipe burst","summary":"Pipe burst"} Department: roads''))
       = Some (Inr (JObj [(''department'', JStr ''water_supply''), (''location'', JStr []),
                          (''severity'', JStr ''high''), (''description'', JStr ''Pipe burst''),
                          (''summary'', JStr ''Pipe burst'')]))
   \<and> jsonMatch ''Department: water {see above'' = None
   \<and> callFineTunedLLM ''pipe phoot gaya'' llama (generated (JStr ''Department: water {see above''))
       = Some (Inr (JObj [(''department'', JStr ''water_supply''), (''location'', JStr []),
                          (''severity'', JStr ''medium''),
                          (''description'', JStr ''No description provided''),
                          (''summary'', JStr ''No description provided'')]))\<close>
proof -
  let ?parsed = "JObj [(''department'', JStr ''water_supply''), (''location'', JStr []),
                       (''severity'', JStr ''high''), (''description'', JStr ''Pipe burst''),
                       (''summary'', JStr ''Pipe burst'')]"
  note th = json_first[of _ _ _ "''pipe phoot gaya''" llama]
  have b1: "CHR ''{'' \<notin> set ''Severity: low ''" by simp
  have b2: "CHR ''}'' \<notin> set '' Department: roads''" by simp
  have m: \<open>jsonMatch ''Severity: low {"department":"water_supply","location":"","severity":"high","description":"Pipe burst","summary":"Pipe burst"} Department: roads''
       = Some ''{"department":"water_supply","location":"","severity":"high","description":"Pipe burst","summary":"Pipe burst"}''\<close>
    using th[THEN conjunct2, THEN conjunct2, rule_format, OF conjI, OF b1 b2,
        of \<open>''"department":"water_supply","location":"","severity":"high","description":"Pipe burst","summary":"Pipe burst"''\<close>]
    by simp
  have p: \<open>JSON_parse ''{"department":"water_supply","location":"","severity":"high","description":"Pipe burst","summary":"Pipe burst"}''
     = Parsed ?parsed\<close>
    by code_simp
  have v: "validateOutput ?parsed = Inr ?parsed"
    by (simp add: validateOutput_def)
  have c: \<open>callFineTunedLLM ''pipe phoot gaya'' llama
        (generated (JStr ''Severity: low {"department":"water_supply","location":"","severity":"high","description":"Pipe burst","summary":"Pipe burst"} Department: roads''))
       = Some (Inr ?parsed)\<close>
    using th[THEN conjunct1, rule_format, OF conjI, OF m p] v by simp
  have m2: "jsonMatch ''Department: water {see above'' = None"
    by code_simp
  have r2: "toObject (parsePlainTextOutput ''Department: water {see above'')
     = JObj [(''department'', JStr ''water_supply''), (''location'', JStr []),
             (''severity'', JStr ''medium''),
             (''description'', JStr ''No description provided''),
             (''summary'', JStr ''No description provided'')]"
    by code_simp
  have c2: "callFineTunedLLM ''pipe phoot gaya'' llama (generated (JStr ''Department: water {see above''))
       = Some (Inr (toObject (parsePlainTextOutput ''Department: water {see above'')))"
    using th[THEN conjunct2, THEN conjunct1, rule_format, OF disjI1, OF m2] .
  show ?thesis using b1 b2 m p c m2 c2 r2 by simp
qed

subsection \<open>C6: when normalization fails\<close>

text \<open>
  C6 as stated has missing fields that the defaulting rules can repair never produce a
  failure. The defaulting rules are applied by the line-oriented parser only; an object
  parsed from JSON goes to the guard as it is. Here the JSON object has no summary,
  which the rule for the summary (the first 80 characters of the description) would
  repair, and the call fails with \<open>Invalid LLM output structure\<close>; the same four
  fields written as lines give a record with that summary.
\<close>

theorem missing_summary_counterexample:
  \<open>callFineTunedLLM ''pipe phoot gaya'' mistral
     (generated (JStr ''{"department":"water_supply","location":"Dadar","severity":"high","description":"Pipe burst near the station"}''))
   = Some (Inl InvalidStructure)
   \<and> callFineTunedLLM ''pipe phoot gaya'' mistral
     (generated (JStr ''Department: water_supply\<newline>Location: Dadar\<newline>Severity: high\<newline>Description: Pipe burst near the station''))
   = Some (Inr (JObj [(''department'', JStr ''water_supply''), (''location'', JStr ''Dadar''),
                      (''severity'', JStr ''high''),
                      (''description'', JStr ''Pipe burst near the station''),
                      (''summary'', JStr ''Pipe burst near the station'')]))\<close>
  by code_simp

text \<open>
  C6, amended. If the department, severity, description or summary of the candidate
  record is missing or empty (falsy), \<open>callFineTunedLLM\<close> signals the failure
  \<open>Invalid LLM output structure - missing required fields\<close> rather than returning the
  record; this holds for a structured object and for the object parsed from the JSON
  span of a text, to which no defaulting is applied. The defaulting rules belong to
  line-oriented parsing, which is reached when the text has no JSON span or
  \<open>JSON.parse\<close> throws on the span; there missing or invalid fields never produce a
  failure: the record is returned, with a department and a severity among the labels and
  with a description and a summary that are not empty.
\<close>

theorem failure_on_empty_fields:
  "(\<not> (truthy (get (JObj ms) ''department'') \<and> truthy (get (JObj ms) ''severity'')
        \<and> truthy (get (JObj ms) ''description'') \<and> truthy (get (JObj ms) ''summary'')) \<longrightarrow>
      callFineTunedLLM userInput model (generated (JObj ms)) = Some (Inl InvalidStructure))
   \<and> (jsonMatch t = Some candidate \<and> JSON_parse candidate = Parsed parsed
        \<and> \<not> (truthy (get parsed ''department'') \<and> truthy (get parsed ''severity'')
             \<and> truthy (get parsed ''description'') \<and> truthy (get parsed ''summary'')) \<longrightarrow>
        callFineTunedLLM userInput model (generated (JStr t)) = Some (Inl InvalidStructure))
   \<and> (jsonMatch t = None \<or> (jsonMatch t = Some candidate \<and> JSON_parse candidate = SyntaxError) \<longrightarrow>
        callFineTunedLLM userInput model (generated (JStr t))
          = Some (Inr (toObject (parsePlainTextOutput t)))
        \<and> department (parsePlainTextOutput t) \<in> set departmentLabels
        \<and> severity (parsePlainTextOutput t) \<in> set severityLabels
        \<and> description (parsePlainTextOutput t) \<noteq> []
        \<and> summary (parsePlainTextOutput t) \<noteq> [])"
proof -
  have a: "\<not> (truthy (get (JObj ms) ''department'') \<and> truthy (get (JObj ms) ''severity'')
        \<and> truthy (get (JObj ms) ''description'') \<and> truthy (get (JObj ms) ''summary'')) \<longrightarrow>
      callFineTunedLLM userInput model (generated (JObj ms)) = Some (Inl InvalidStructure)"
    by (simp add: callFineTunedLLM_generated orElse_def parseGeneratedText_def validateOutput_def)
  have b: "jsonMatch t = Some candidate \<and> JSON_parse candidate = Parsed parsed
        \<and> \<not> (truthy (get parsed ''department'') \<and> truthy (get parsed ''severity'')
             \<and> truthy (get parsed ''description'') \<and> truthy (get parsed ''summary'')) \<longrightarrow>
        callFineTunedLLM userInput model (generated (JStr t)) = Some (Inl InvalidStructure)"
    by (auto simp add: callFineTunedLLM_generated_text validateOutput_def)
  have c: "jsonMatch t = None \<or> (jsonMatch t = Some candidate \<and> JSON_parse candidate = SyntaxError) \<longrightarrow>
        callFineTunedLLM userInput model (generated (JStr t))
          = Some (Inr (toObject (parsePlainTextOutput t)))"
    by (auto simp add: callFineTunedLLM_generated_text)
  from a b c show ?thesis
    by (simp only: parsePlainTextOutput_labels) simp
qed

theorem failure_on_empty_fields_witness:
  \<open>callFineTunedLLM ''pipe phoot gaya'' llama
       (generated (JObj [(''department'', JStr ''water_supply''), (''severity'', JStr []),
                         (''description'', JStr ''Pipe burst''), (''summary'', JStr ''Pipe burst'')]))
     = Some (Inl InvalidStructure)
   \<and> jsonMatch ''{"department":"water_supply","severity":"high","summary":"Pipe burst"}''
     = Some ''{"department":"water_supply","severity":"high","summary":"Pipe burst"}''
   \<and> JSON_parse ''{"department":"water_supply","severity":"high","summary":"Pipe burst"}''
     = Parsed (JObj [(''department'', JStr ''water_supply''), (''severity'', JStr ''high''),
                     (''summary'', JStr ''Pipe burst'')])
   \<and> callFineTunedLLM ''pipe phoot gaya'' llama
       (generated (JStr ''{"department":"water_supply","severity":"high","summary":"Pipe burst"}''))
     = Some (Inl InvalidStructure)
   \<and> jsonMatch ''Department: dept of {unknown'' = None
   \<and> callFineTunedLLM ''pipe phoot gaya'' llama (generated (JStr ''Department: dept of {unknown''))
     = Some (Inr (JObj [(''department'', JStr ''roads_and_traffic''), (''location'', JStr []),
                        (''severity'', JStr ''medium''),
                        (''description'', JStr ''No description provided''),
                        (''summary'', JStr ''No description provided'')]))\<close>
proof -
  let ?ms = "[(''department'', JStr ''water_supply''), (''severity'', JStr []),
              (''description'', JStr ''Pipe burst''), (''summary'', JStr ''Pipe burst'')]"
  let ?parsed = "JObj [(''department'', JStr ''water_supply''), (''severity'', JStr ''high''),
                       (''summary'', JStr ''Pipe burst'')]"
  have m1: \<open>jsonMatch ''{"department":"water_supply","severity":"high","summary":"Pipe burst"}''
     = Some ''{"department":"water_supply","severity":"high","summary":"Pipe burst"}''\<close>
    by code_simp
  have p1: \<open>JSON_parse ''{"department":"water_supply","severity":"high","summary":"Pipe burst"}''
     = Parsed ?parsed\<close>
    by code_simp
  have m2: "jsonMatch ''Department: dept of {unknown'' = None"
    by code_simp
  have r2: "toObject (parsePlainTextOutput ''Department: dept of {unknown'')
     = JObj [(''department'', JStr ''roads_and_traffic''), (''location'', JStr []),
             (''severity'', JStr ''medium''),
             (''description'', JStr ''No description provided''),
             (''summary'', JStr ''No description provided'')]"
    by code_simp
  have e0: "\<not> (truthy (get (JObj ?ms) ''department'') \<and> truthy (get (JObj ?ms) ''severity'')
        \<and> truthy (get (JObj ?ms) ''description'') \<and> truthy (get (JObj ?ms) ''summary''))"
    by simp
  have e1: "\<not> (truthy (get ?parsed ''department'') \<and> truthy (get ?parsed ''severity'')
        \<and> truthy (get ?parsed ''description'') \<and> truthy (get ?parsed ''summary''))"
    by simp
  note th = failure_on_empty_fields[of ?ms "''pipe phoot gaya''" llama]
  have c0: "callFineTunedLLM ''pipe phoot gaya'' llama (generated (JObj ?ms))
              = Some (Inl InvalidStructure)"
    using th[THEN conjunct1, rule_format, OF e0] .
  have c1: \<open>callFineTunedLLM ''pipe phoot gaya'' llama
       (generated (JStr ''{"department":"water_supply","severity":"high","summary":"Pipe burst"}''))
     = Some (Inl InvalidStructure)\<close>
    using th[THEN conjunct2, THEN conjunct1, rule_format, OF conjI, OF m1 conjI, OF p1 e1] .
  have c2: "callFineTunedLLM ''pipe phoot gaya'' llama (generated (JStr ''Department: dept of {unknown''))
     = Some (Inr (toObject (parsePlainTextOutput ''Department: dept of {unknown'')))"
    using th[THEN conjunct2, THEN conjunct2, rule_format, OF disjI1, OF m2] by simp
  show ?thesis using c0 m1 p1 c1 m2 c2 r2 by simp
qed

subsection \<open>C7: a failed translation keeps the transcribed text\<close>

text \<open>
  C7. After a transcription that succeeded with the text \<open>result.text\<close>, if the
  translation fails (the call errors, or the service answers \<open>success: false\<close> or an
  empty \<open>translated_text\<close>), the handler goes on with the transcribed text as its
  working text: it writes it to the description of the form, shows
  \<open>Transcription complete\<close> and, with AI autofill on, hands that same text to
  \<open>processWithAI\<close>, so that what the handler leaves behind is what \<open>processWithAI\<close>
  makes of the form with that text. The description it leaves is the transcribed text
  when AI autofill is off or the categorization throws; and it is never the empty
  string unless the transcribed text was, since a description that the categorization
  writes over it has passed the guard of \<open>callFineTunedLLM\<close>.
\<close>

theorem translation_fallback:
  assumes "transcribeAudioLocal audio transcribeFetched = Returns result"
      and "\<not> nullish result" and "truthy (get result ''success'')"
      and "translationFailed translateFetched"
  shows "handleTranscribe f audio True transcribeFetched translateFetched useAIAutofill
             selectedLLMModel llmFetch findDepartment
           = (let f2 = toast ''Transcription complete''
                         (f\<lparr>transcriptionField := get result ''text'',
                            descriptionField := get result ''text''\<rparr>)
              in if useAIAutofill
                 then processWithAI selectedLLMModel llmFetch findDepartment (get result ''text'') f2
                 else Some f2)
       \<and> (\<not> useAIAutofill
            \<or> (\<exists>e. callFineTunedLLM (get result ''text'') selectedLLMModel
                       (llmFetch (get result ''text'')) = Some (Inl e)) \<longrightarrow>
            map_option descriptionField
              (handleTranscribe f audio True transcribeFetched translateFetched useAIAutofill
                 selectedLLMModel llmFetch findDepartment)
              = Some (get result ''text''))
       \<and> (\<forall>f'. handleTranscribe f audio True transcribeFetched translateFetched useAIAutofill
                  selectedLLMModel llmFetch findDepartment = Some f'
                \<and> get result ''text'' \<noteq> JStr [] \<longrightarrow>
              descriptionField f' \<noteq> JStr [])"
proof -
  let ?t = "get result ''text''"
  let ?f2 = "toast ''Transcription complete'' (f\<lparr>transcriptionField := ?t, descriptionField := ?t\<rparr>)"
  let ?p = "processWithAI selectedLLMModel llmFetch findDepartment ?t ?f2"
  have h: "handleTranscribe f audio True transcribeFetched translateFetched useAIAutofill
             selectedLLMModel llmFetch findDepartment
           = (if useAIAutofill then ?p else Some ?f2)"
    using assms(2,3,4)
    by (auto simp add: handleTranscribe_def assms(1) translationFailed_def
          translateToEnglishLocal_def tryCatch_def jsonOrThrow_def nullish_def Let_def
          split: outcome.splits)
  have d2: "descriptionField ?f2 = ?t"
    by (simp add: toast_def)
  have p1: "(\<exists>e. callFineTunedLLM ?t selectedLLMModel (llmFetch ?t) = Some (Inl e)) \<longrightarrow>
          map_option descriptionField ?p = Some ?t"
    by (auto simp add: processWithAI_def toast_def Let_def)
  have p2: "\<forall>f'. ?p = Some f' \<and> ?t \<noteq> JStr [] \<longrightarrow> descriptionField f' \<noteq> JStr []"
  proof (intro allI impI)
    fix f' assume a: "?p = Some f' \<and> ?t \<noteq> JStr []"
    show "descriptionField f' \<noteq> JStr []"
    proof (cases "callFineTunedLLM ?t selectedLLMModel (llmFetch ?t)")
      case None
      with a show ?thesis by (simp add: processWithAI_def Let_def)
    next
      case (Some r)
      show ?thesis
      proof (cases r)
        case (Inl e)
        with Some a show ?thesis by (auto simp add: processWithAI_def toast_def Let_def)
      next
        case (Inr v)
        from Some Inr have c: "callFineTunedLLM ?t selectedLLMModel (llmFetch ?t) = Some (Inr v)"
          by simp
        from callFineTunedLLM_returns_checked[OF c]
        have "get v ''description'' \<noteq> JStr []" by auto
        with Some Inr a show ?thesis
          by (auto simp add: processWithAI_def toast_def Let_def split: outcome.splits)
      qed
    qed
  qed
  show ?thesis
    unfolding h using d2 p1 p2 by (simp add: Let_def)
qed

theorem translation_fallback_witness:
  "handleTranscribe
     \<lparr>transcriptionField = JStr [], descriptionField = JStr [], locationField = JStr [],
      severityField = JStr ''low'', departmentIdField = JStr [], summaryField = JStr [],
      llmModelUsedField = JStr [], toasts = []\<rparr>
     [82, 73, 70, 70] True
     (Returns \<lparr>ok = True, status = 200, responseText = Throws (Error ''body stream already read''),
               responseJson = Returns (JObj [(''text'', JStr ''naala band ho gaya hai''),
                                             (''success'', JBool True)])\<rparr>)
     (Returns \<lparr>ok = True, status = 200, responseText = Throws (Error ''body stream already read''),
               responseJson = Returns (JObj [(''error'', JStr ''Translation model not loaded''),
                                             (''success'', JBool False)])\<rparr>)
     True llama
     (\<lambda>grievanceText. Throws (Error ''Failed to fetch''))
     (\<lambda>llmOutput. Returns JUndefined)
   = Some \<lparr>transcriptionField = JStr ''naala band ho gaya hai'',
      descriptionField = JStr ''naala band ho gaya hai'', locationField = JStr [],
      severityField = JStr ''low'', departmentIdField = JStr [], summaryField = JStr [],
      llmModelUsedField = JStr [],
      toasts = [''Transcription complete'', ''AI Processing'', ''AI Processing Failed'']\<rparr>
   \<and> handleTranscribe
     \<lparr>transcriptionField = JStr [], descriptionField = JStr [], locationField = JStr [],
      severityField = JStr ''low'', departmentIdField = JStr [], summaryField = JStr [],
      llmModelUsedField = JStr [], toasts = []\<rparr>
     [82, 73, 70, 70] True
     (Returns \<lparr>ok = True, status = 200, responseText = Throws (Error ''body stream already read''),
               responseJson = Returns (JObj [(''text'', JStr ''naala band ho gaya hai''),
                                             (''success'', JBool True)])\<rparr>)
     (Returns \<lparr>ok = True, status = 200, responseText = Throws (Error ''body stream already read''),
               responseJson = Returns (JObj [(''error'', JStr ''Translation model not loaded''),
                                             (''success'', JBool False)])\<rparr>)
     True llama
     (\<lambda>grievanceText. generated (JStr ''Department: water\<newline>Severity: high\<newline>Description: The drain is blocked.''))
     (\<lambda>llmOutput. Returns (JObj [(''id'', JStr ''d-water''), (''name'', JStr ''Water Supply'')]))
   = Some \<lparr>transcriptionField = JStr ''naala band ho gaya hai'',
      descriptionField = JStr ''The drain is blocked.'', locationField = JStr [],
      severityField = JStr ''high'', departmentIdField = JStr ''d-water'',
      summaryField = JStr ''The drain is blocked.'',
      llmModelUsedField = JStr ''llama'',
      toasts = [''Transcription complete'', ''AI Processing'', ''AI Auto-fill Complete'']\<rparr>"
proof -
  let ?tr = "Returns \<lparr>ok = True, status = 200, responseText = Throws (Error ''body stream already read''),
               responseJson = Returns (JObj [(''text'', JStr ''naala band ho gaya hai''),
                                             (''success'', JBool True)])\<rparr>"
  let ?tl = "Returns \<lparr>ok = True, status = 200, responseText = Throws (Error ''body stream already read''),
               responseJson = Returns (JObj [(''error'', JStr ''Translation model not loaded''),
                                             (''success'', JBool False)])\<rparr>"
  let ?result = "JObj [(''text'', JStr ''naala band ho gaya hai''), (''success'', JBool True)]"
  have a: "transcribeAudioLocal [82, 73, 70, 70] ?tr = Returns ?result"
    by (simp add: transcribeAudioLocal_def tryCatch_def jsonOrThrow_def)
  have b: "\<not> nullish ?result" by (simp add: nullish_def)
  have c: "truthy (get ?result ''success'')" by simp
  have d: "translationFailed ?tl" by (simp add: translationFailed_def nullish_def)
  have l1: "callFineTunedLLM (JStr ''naala band ho gaya hai'') llama (Throws (Error ''Failed to fetch''))
              = Some (Inl (Rethrown (Error ''Failed to fetch'')))"
    by (simp add: callFineTunedLLM_def)
  have l2: "callFineTunedLLM (JStr ''naala band ho gaya hai'') llama
              (generated (JStr ''Department: water\<newline>Severity: high\<newline>Description: The drain is blocked.''))
              = Some (Inr (JObj [(''department'', JStr ''water_supply''), (''location'', JStr []),
                                 (''severity'', JStr ''high''),
                                 (''description'', JStr ''The drain is blocked.''),
                                 (''summary'', JStr ''The drain is blocked.'')]))"
    by code_simp
  show ?thesis
    unfolding translation_fallback[OF a b c d, THEN conjunct1]
    by (simp add: processWithAI_def toast_def Let_def l1 l2 orElse_def)
qed

subsection \<open>C8: a valid JSON object comes back unchanged\<close>

text \<open>
  C8. If the generated text is exactly a JSON object (from its opening brace to its
  closing brace) with the five fields, the department and the severity among the labels
  and a description and a summary that are not empty, then \<open>callFineTunedLLM\<close> returns
  the parsed object itself: the five values are unchanged.
\<close>

theorem valid_json_unchanged:
  assumes "JSON_parse (CHR ''{'' # mid @ ''}'') = Parsed (JObj ms)"
      and "get (JObj ms) ''department'' = JStr d" and "d \<in> set departmentLabels"
      and "get (JObj ms) ''severity'' = JStr sv" and "sv \<in> set severityLabels"
      and "get (JObj ms) ''location'' = JStr l"
      and "get (JObj ms) ''description'' = JStr ds" and "ds \<noteq> []"
      and "get (JObj ms) ''summary'' = JStr sm" and "sm \<noteq> []"
  shows "callFineTunedLLM userInput model (generated (JStr (CHR ''{'' # mid @ ''}'')))
           = Some (Inr (JObj ms))"
proof -
  from assms(3) have d: "d \<noteq> []" by (auto simp add: departmentLabels_def)
  from assms(5) have sv: "sv \<noteq> []" by (auto simp add: severityLabels_def)
  have "validateOutput (JObj ms) = Inr (JObj ms)"
    unfolding validateOutput_def assms(2,4,7,9) using d sv assms(8,10) by simp
  then show ?thesis
    by (simp only: callFineTunedLLM_generated_text jsonMatch_whole option.case assms(1)
          parsed.case)
qed

theorem valid_json_unchanged_witness:
  \<open>callFineTunedLLM ''pipeline phoot gai hai Charni Road ke paas'' qwen
     (generated (JStr ''{"department":"water_supply","location":"Charni Road","severity":"high","description":"Pipeline rupture near Charni Road.","summary":"Pipeline burst"}''))
   = Some (Inr (JObj [(''department'', JStr ''water_supply''),
                      (''location'', JStr ''Charni Road''), (''severity'', JStr ''high''),
                      (''description'', JStr ''Pipeline rupture near Charni Road.''),
                      (''summary'', JStr ''Pipeline burst'')]))\<close>
proof -
  have p: \<open>JSON_parse (CHR ''{'' # ''"department":"water_supply","location":"Charni Road","severity":"high","description":"Pipeline rupture near Charni Road.","summary":"Pipeline burst"'' @ ''}'')
     = Parsed (JObj [(''department'', JStr ''water_supply''), (''location'', JStr ''Charni Road''),
                (''severity'', JStr ''high''),
                (''description'', JStr ''Pipeline rupture near Charni Road.''),
                (''summary'', JStr ''Pipeline burst'')])\<close>
    by code_simp
  have \<open>callFineTunedLLM ''pipeline phoot gai hai Charni Road ke paas'' qwen
     (generated (JStr (CHR ''{'' # ''"department":"water_supply","location":"Charni Road","severity":"high","description":"Pipeline rupture near Charni Road.","summary":"Pipeline burst"'' @ ''}'')))
   = Some (Inr (JObj [(''department'', JStr ''water_supply''),
                      (''location'', JStr ''Charni Road''), (''severity'', JStr ''high''),
                      (''description'', JStr ''Pipeline rupture near Charni Road.''),
                      (''summary'', JStr ''Pipeline burst'')]))\<close>
    by (rule valid_json_unchanged[OF p, of "''water_supply''" "''high''" "''Charni Road''"
          "''Pipeline rupture near Charni Road.''" "''Pipeline burst''"])
       (simp_all add: departmentLabels_def severityLabels_def)
  then show ?thesis by simp
qed

subsection \<open>C9: the end-to-end scenario\<close>

text \<open>
  C9. The four lines \<open>Department: water\<close>, \<open>Severity: low\<close>, \<open>Location:\<close> and
  \<open>Summary: Naala band ho gaya hai, gutter se paani ghar ke andar aa raha hai\<close>, with no
  JSON in them, give exactly the record with department \<open>water_supply\<close>, severity
  \<open>low\<close>, the empty location, and the summary line's text as both description and
  summary: the \<open>Location:\<close> line has no value and is skipped, and the description, for
  which there is no line, falls back to the summary.
\<close>

theorem scenario_four_lines:
  "jsonMatch
     ''Department: water\<newline>Severity: low\<newline>Location:\<newline>Summary: Naala band ho gaya hai, gutter se paani ghar ke andar aa raha hai''
   = None
   \<and> parsePlainTextOutput
     ''Department: water\<newline>Severity: low\<newline>Location:\<newline>Summary: Naala band ho gaya hai, gutter se paani ghar ke andar aa raha hai''
   = \<lparr>department = ''water_supply'', location = '''', severity = ''low'',
      description = ''Naala band ho gaya hai, gutter se paani ghar ke andar aa raha hai'',
      summary = ''Naala band ho gaya hai, gutter se paani ghar ke andar aa raha hai''\<rparr>"
  by code_simp

subsection \<open>C10: the clients never throw\<close>

text \<open>
  C10. \<open>transcribeAudioLocal\<close>, \<open>translateToEnglishLocal\<close> and
  \<open>categorizeGrievanceLocal\<close> return a value whatever their \<open>fetch\<close> does; and when
  the call fails (a network error, a response that is not \<open>ok\<close>, or a body that does
  not decode) the value is the failure object of the client: \<open>success\<close> is
  \<open>false\<close>, \<open>error\<close> is a string, the text fields are empty and, for the
  translation, \<open>original_text\<close> is the input.
\<close>

theorem clients_never_throw:
  "(\<exists>v. transcribeAudioLocal audioBlob fetched = Returns v)
   \<and> (\<exists>v. translateToEnglishLocal txt fetched = Returns v)
   \<and> (\<exists>v. categorizeGrievanceLocal t model fastMode fetched = Returns v)
   \<and> (callFailed fetched \<longrightarrow>
        (\<exists>message. transcribeAudioLocal audioBlob fetched =
            Returns (JObj [(''text'', JStr []), (''success'', JBool False),
                           (''error'', JStr message)]))
      \<and> (\<exists>message. translateToEnglishLocal txt fetched =
            Returns (JObj [(''translated_text'', JStr []), (''original_text'', txt),
                           (''success'', JBool False), (''error'', JStr message)]))
      \<and> (\<exists>message. categorizeGrievanceLocal t model fastMode fetched =
            Returns (JObj [(''text'', JStr []), (''generated_text'', JStr []),
                           (''success'', JBool False), (''error'', JStr message)])))"
proof (cases "jsonOrThrow fetched")
  case (Throws error)
  then show ?thesis
    by (simp add: transcribeAudioLocal_def translateToEnglishLocal_def
          categorizeGrievanceLocal_def tryCatch_def)
next
  case (Returns v)
  then have "\<not> callFailed fetched"
    by (auto simp add: jsonOrThrow_def callFailed_def split: outcome.splits if_splits)
  with Returns show ?thesis
    by (simp add: transcribeAudioLocal_def translateToEnglishLocal_def
          categorizeGrievanceLocal_def tryCatch_def)
qed

theorem clients_never_throw_witness:
  "callFailed (Returns \<lparr>ok = False, status = 503, responseText = Returns ''Service Unavailable'',
                        responseJson = Throws (Error ''Unexpected token S in JSON'')\<rparr>)
   \<and> translateToEnglishLocal (JStr ''paani nahi aa raha'')
        (Returns \<lparr>ok = False, status = 503, responseText = Returns ''Service Unavailable'',
                  responseJson = Throws (Error ''Unexpected token S in JSON'')\<rparr>)
      = Returns (JObj [(''translated_text'', JStr []),
                       (''original_text'', JStr ''paani nahi aa raha''),
                       (''success'', JBool False), (''error'', JStr ''Server error: 503'')])"
proof -
  let ?fetched = "Returns \<lparr>ok = False, status = 503, responseText = Returns ''Service Unavailable'',
                           responseJson = Throws (Error ''Unexpected token S in JSON'')\<rparr>"
  have f: "callFailed ?fetched" by (simp add: callFailed_def)
  have d: "decimal 503 = ''503''" by code_simp
  have e: "translateToEnglishLocal (JStr ''paani nahi aa raha'') ?fetched
      = Returns (JObj [(''translated_text'', JStr []),
                       (''original_text'', JStr ''paani nahi aa raha''),
                       (''success'', JBool False), (''error'', JStr ''Server error: 503'')])"
    by (simp add: translateToEnglishLocal_def tryCatch_def jsonOrThrow_def errorMessage_def d
             del: decimal.simps)
  from clients_never_throw[of "[]" ?fetched "JStr ''paani nahi aa raha''" "[]" mistral True] f e
  show ?thesis by simp
qed

end
